theory Spec2Isabelle
  imports Main "HOL-Library.Word"
begin

section \<open>Values exchanged with the libraries\<close>

text \<open>
  The page \<open>PaymasterDemo\<close> drives a pipeline of library calls (viem, the MetaMask
  delegation toolkit, a bundler endpoint). Hex strings such as addresses, signatures and
  payloads are modelled by the byte sequences they denote; JavaScript \<open>bigint\<close>s are
  \<open>int\<close>. A value thrown by a library call is either an \<open>Error\<close> object, of which
  the page reads only the \<open>message\<close>, or something else.
\<close>

type_synonym byte = "8 word"
type_synonym hex = "byte list"
type_synonym address = "byte list"

datatype thrown = Error string | NonError

subsection \<open>The constants of the page\<close>

definition PAYMASTER_V08_ADDRESS :: address where
  "PAYMASTER_V08_ADDRESS =
     [0x3B, 0xA9, 0xA9, 0x6e, 0xE3, 0xeF, 0xf3, 0xA6, 0x9E, 0x2B,
      0x18, 0x88, 0x6A, 0xcF, 0x52, 0x02, 0x7E, 0xFF, 0x89, 0x66]"

definition USDC_ADDRESS :: address where
  "USDC_ADDRESS =
     [0x75, 0xfa, 0xf1, 0x14, 0xea, 0xfb, 0x1B, 0xDb, 0xe2, 0xF0,
      0x31, 0x6D, 0xF8, 0x93, 0xfd, 0x58, 0xCE, 0x46, 0xAA, 0x4d]"

definition maxUint256 :: int where
  "maxUint256 = 2 ^ 256 - 1"

section \<open>Packed encoding\<close>

text \<open>\<open>be_bytes n v\<close> is the \<open>n\<close>-byte big-endian representation of \<open>v\<close>
  (the low \<open>n\<close> bytes, most significant first); \<open>be_value\<close> reads one back.\<close>

fun be_bytes :: "nat \<Rightarrow> nat \<Rightarrow> hex" where
  "be_bytes 0 v = []"
| "be_bytes (Suc n) v = be_bytes n (v div 256) @ [of_nat (v mod 256)]"

fun be_value_acc :: "nat \<Rightarrow> hex \<Rightarrow> nat" where
  "be_value_acc acc [] = acc"
| "be_value_acc acc (b # bs) = be_value_acc (acc * 256 + unat b) bs"

definition be_value :: "hex \<Rightarrow> nat" where
  "be_value bs = be_value_acc 0 bs"

datatype abi_type = Uint nat | Address | Bytes

datatype abi_value = Num int | Addr address | Blob hex

text \<open>Modelled from the spec: viem's \<open>encodePacked\<close> is a library function that is not
  part of the sources. Following section 4.2, an unsigned integer of \<open>bits\<close> bits is
  written big-endian on \<open>bits div 8\<close> bytes, an address on its 20 bytes, and dynamic
  bytes as they are, with no length prefix; the pieces are concatenated in the order of
  the type list. Malformed inputs (an address that is not 20 bytes long, an integer that
  does not fit, a value of the wrong kind, lists of different lengths) make it throw.\<close>

fun encode :: "abi_type \<Rightarrow> abi_value \<Rightarrow> thrown + hex" where
  "encode Address (Addr a) =
     (if length a = 20 then Inr a else Inl (Error ''InvalidAddressError''))"
| "encode Bytes (Blob b) = Inr b"
| "encode (Uint bits) (Num v) =
     (if 0 \<le> v \<and> v < 2 ^ bits then Inr (be_bytes (bits div 8) (nat v))
      else Inl (Error ''IntegerOutOfRangeError''))"
| "encode Address _ = Inl (Error ''InvalidTypeError'')"
| "encode Bytes _ = Inl (Error ''InvalidTypeError'')"
| "encode (Uint _) _ = Inl (Error ''InvalidTypeError'')"

text \<open>Modelled from the spec: the pieces are concatenated in the order of the type list
  (section 4.2: "in that fixed order"); a type list and a value list of different lengths
  make the call throw.\<close>

fun encodePacked :: "abi_type list \<Rightarrow> abi_value list \<Rightarrow> thrown + hex" where
  "encodePacked [] [] = Inr []"
| "encodePacked (t # ts) (v # vs) =
     (case encode t v of
        Inl e \<Rightarrow> Inl e
      | Inr d \<Rightarrow> (case encodePacked ts vs of Inl e \<Rightarrow> Inl e | Inr ds \<Rightarrow> Inr (d @ ds)))"
| "encodePacked _ _ = Inl (Error ''AbiEncodingLengthMismatchError'')"

text \<open>The payload built by \<open>sendTransaction\<close>:
  \<^verbatim>\<open>encodePacked(['uint8', 'address', 'uint256', 'bytes'], [0, USDC_ADDRESS, permitAmount, permitSignature])\<close>,
  with the four values as parameters.\<close>

definition encodePaymasterData :: "int \<Rightarrow> address \<Rightarrow> int \<Rightarrow> hex \<Rightarrow> thrown + hex" where
  "encodePaymasterData mode token amount signature =
     encodePacked [Uint 8, Address, Uint 256, Bytes]
       [Num mode, Addr token, Num amount, Blob signature]"

text \<open>The reading of the payload that the spec describes for its consumer: mode at
  byte 0, address at bytes 1..20, amount at bytes 21..52, big-endian, and the signature as
  whatever follows the 53 bytes of the fixed prefix. A payload shorter than the prefix
  cannot be read.\<close>

definition decode_payload :: "hex \<Rightarrow> (int \<times> address \<times> int \<times> hex) option" where
  "decode_payload p =
     (if length p < 53 then None
      else Some (uint (p ! 0), take 20 (drop 1 p), int (be_value (take 32 (drop 21 p))),
                 drop 53 p))"

section \<open>The capabilities the page calls\<close>

record wallet_client =
  getAddresses :: "thrown + address list"

record public_client =
  chain_id :: int

text \<open>\<open>arbitrumSepolia\<close> of \<open>viem/chains\<close>, reduced to its chain id.\<close>

definition arbitrumSepolia :: int where
  "arbitrumSepolia = 421614"

definition createPublicClient :: "int \<Rightarrow> public_client" where
  "createPublicClient chain = \<lparr>chain_id = chain\<rparr>"

datatype implementation = Hybrid | MultiSig | Stateless7702

type_synonym deploy_params = "address option \<times> string list \<times> int list \<times> int list"

record smart_account_params =
  client :: public_client
  implementation :: implementation
  deployParams :: deploy_params
  deploySalt :: hex
  signatory :: wallet_client

record eip712_domain =
  name :: string
  version :: string
  chainId :: int
  verifyingContract :: address

record permit_message =
  owner :: address
  spender :: address
  msg_value :: string
  nonce :: string
  deadline :: string

record typed_data_types =
  EIP712Domain :: "(string \<times> string) list"
  Permit :: "(string \<times> string) list"

record typed_data =
  primaryType :: string
  domain :: eip712_domain
  types :: typed_data_types
  message :: permit_message

record smart_account =
  address :: address
  signTypedData :: "typed_data \<Rightarrow> thrown + hex"

record gas_tier =
  tier_maxFeePerGas :: hex
  tier_maxPriorityFeePerGas :: hex

record gas_price =
  standard :: gas_tier

record fees =
  maxFeePerGas :: int
  maxPriorityFeePerGas :: int

record erc20_call =
  to :: address
  functionName :: string
  args :: "string \<times> int"

record paymaster_data =
  paymaster :: address
  paymasterData :: hex
  paymasterVerificationGasLimit :: int
  paymasterPostOpGasLimit :: int
  isFinal :: bool

record user_operation =
  account :: address
  calls :: "erc20_call list"
  uo_fees :: fees
  uo_paymaster :: paymaster_data

record receipt =
  transactionHash :: hex

text \<open>Everything the page waits for is a capability of the environment: the chain reads
  of the token contract, the toolkit's account resolution, the bundler's gas-price oracle,
  its submission endpoint and its receipt query. \<open>parseUnits\<close> and \<open>formatUnits\<close> are
  viem's decimal conversions, taken as they are.\<close>

record env =
  getCounterfactualAddress :: "implementation \<Rightarrow> deploy_params \<Rightarrow> hex \<Rightarrow> address"
  account_signer :: "smart_account_params \<Rightarrow> thrown + (typed_data \<Rightarrow> thrown + hex)"
  read_name :: "address \<Rightarrow> thrown + string"
  read_version :: "address \<Rightarrow> thrown + string"
  read_nonces :: "address \<Rightarrow> address \<Rightarrow> thrown + int"
  parseUnits :: "string \<Rightarrow> nat \<Rightarrow> thrown + int"
  formatUnits :: "int \<Rightarrow> nat \<Rightarrow> string"
  request_gas_price :: "thrown + gas_price"
  submit :: "user_operation \<Rightarrow> thrown + hex"
  waitForUserOperationReceipt :: "hex \<Rightarrow> thrown + receipt"

text \<open>The calls the page makes into the libraries and the network.\<close>

datatype effect =
    GetAddresses
  | ParseUnits string nat
  | EncodePacked "abi_value list"
  | ToMetaMaskSmartAccount smart_account_params
  | ReadName address
  | ReadVersion address
  | ReadNonces address address
  | SignTypedData address typed_data
  | GasPriceRequest
  | HexToBigInt hex
  | SendUserOperation user_operation
  | WaitForUserOperationReceipt hex

section \<open>The page state\<close>

datatype log_type = info | success | error | warning

text \<open>A message is a template of the source and the values interpolated into it. The
  pictograms that open most log lines are left out.\<close>

datatype template =
    FillInAllFields \<comment> \<open>Please connect MetaMask and fill in all fields\<close>
  | AllFieldsRequired \<comment> \<open>MetaMask connection and all fields are required\<close>
  | ConnectFirst \<comment> \<open>Please connect MetaMask first\<close>
  | WalletNotConnected \<comment> \<open>MetaMask wallet not connected\<close>
  | SettingUpSmartAccount \<comment> \<open>Setting up MetaMask smart account...\<close>
  | SettingUpAccount \<comment> \<open>Setting up account...\<close>
  | CreatingPublicClient \<comment> \<open>Creating public client for Arbitrum Sepolia\<close>
  | GettingAddresses \<comment> \<open>Getting MetaMask addresses\<close>
  | OwnerAddress \<comment> \<open>Owner address: $owner\<close>
  | CreatingSmartAccount \<comment> \<open>Creating MetaMask smart account\<close>
  | SmartAccountCreated \<comment> \<open>MetaMask smart account created: $address\<close>
  | SmartAccountDetails \<comment> \<open>Smart Account Details:\<close>
  | DetailAddress \<comment> \<open>Address: $address\<close>
  | DetailImplementation \<comment> \<open>Implementation: $implementation\<close>
  | DetailDeploySalt \<comment> \<open>Deploy Salt: 0x\<close>
  | DetailOwner \<comment> \<open>Owner: $owner\<close>
  | AccountSetupComplete \<comment> \<open>Account setup complete\<close>
  | AccountReady \<comment> \<open>Account ready for transactions\<close>
  | AccountSetupFailed \<comment> \<open>Account setup failed: $errorMsg\<close>
  | ErrorStatus \<comment> \<open>Error: $errorMsg\<close>
  | Starting \<comment> \<open>Starting USDC transfer with paymaster...\<close>
  | Initializing \<comment> \<open>Initializing transaction...\<close>
  | SettingUpConnection \<comment> \<open>Setting up blockchain connection\<close>
  | SmartAccountResolved \<comment> \<open>MetaMask smart account: $address\<close>
  | PreparingTransferAmount \<comment> \<open>Preparing transfer amount\<close>
  | TransferAmount \<comment> \<open>Transfer amount: $amount USDC\<close>
  | CreatingPermit \<comment> \<open>Creating EIP-2612 permit signature...\<close>
  | CreatingPermitStatus \<comment> \<open>Creating permit signature...\<close>
  | PermitAmount \<comment> \<open>Permit amount: $formatted USDC\<close>
  | PermitSignatureCreated \<comment> \<open>Permit signature created\<close>
  | EncodingPaymasterData \<comment> \<open>Encoding paymaster data\<close>
  | PaymasterConfigured \<comment> \<open>Paymaster configured: $PAYMASTER_V08_ADDRESS\<close>
  | CreatingBundlerClient \<comment> \<open>Creating bundler client with Pimlico\<close>
  | CreatingBundlerClientStatus \<comment> \<open>Creating bundler client...\<close>
  | BundlerClientCreated \<comment> \<open>Bundler client created\<close>
  | SubmittingUserOperation \<comment> \<open>Submitting user operation to bundler\<close>
  | Transferring \<comment> \<open>Transferring $amount USDC to $recipient\<close>
  | SendingUserOperation \<comment> \<open>Sending user operation...\<close>
  | FetchingGasPrices \<comment> \<open>Fetching gas prices from Pimlico\<close>
  | UserOperationSubmitted \<comment> \<open>UserOperation submitted: $uoHash\<close>
  | WaitingForConfirmation \<comment> \<open>Waiting for transaction confirmation...\<close>
  | WaitingStatus \<comment> \<open>Waiting for confirmation... UserOp hash: $uoHash\<close>
  | TransactionConfirmed \<comment> \<open>Transaction confirmed!\<close>
  | TransactionHash \<comment> \<open>Transaction hash: $transactionHash\<close>
  | Sent \<comment> \<open>Sent $amount USDC to $recipient\<close>
  | GasPaidWithUSDC \<comment> \<open>Gas paid with USDC via paymaster\<close>
  | TransactionSuccessful \<comment> \<open>Transaction successful! Hash: $transactionHash\<close>
  | TransactionFailed \<comment> \<open>Transaction failed: $errorMsg\<close>

datatype arg =
    ArgString string
  | ArgAddress address
  | ArgUndefined
  | ArgHex hex
  | ArgImplementation implementation

type_synonym log_message = "template \<times> arg list"

text \<open>\<open>LogEntry\<close> without its \<open>id\<close> and \<open>timestamp\<close>, which read the wall clock.\<close>

type_synonym log_entry = "log_type \<times> log_message"

record account_info =
  info_address :: address
  smartAccountBalance :: string
  ownerAddress :: "address option"
  ownerBalance :: string

record state =
  recipient :: string
  amount :: string
  loading :: bool
  status :: "(log_type \<times> log_message) option"
  logs :: "log_entry list"
  accountInfo :: "account_info option"
  walletClient :: "wallet_client option"
  isConnected :: bool

text \<open>The page state together with the record of the calls made so far, each with
  what it threw, if it threw.\<close>

record world = state +
  effects :: "(effect \<times> thrown option) list"

definition updateStatus :: "log_type \<Rightarrow> log_message \<Rightarrow> world \<Rightarrow> world" where
  "updateStatus ty m w = w\<lparr>status := Some (ty, m)\<rparr>"

text \<open>\<open>setLogs(prev => [...prev, newLog])\<close>\<close>

definition addLog :: "log_type \<Rightarrow> log_message \<Rightarrow> world \<Rightarrow> world" where
  "addLog ty m w = logs_update (\<lambda>prev. prev @ [(ty, m)]) w"

definition clearLogs :: "world \<Rightarrow> world" where
  "clearLogs w = w\<lparr>logs := []\<rparr>"

definition setLoading :: "bool \<Rightarrow> world \<Rightarrow> world" where
  "setLoading b w = w\<lparr>loading := b\<rparr>"

definition setAccountInfo :: "account_info \<Rightarrow> world \<Rightarrow> world" where
  "setAccountInfo a w = w\<lparr>accountInfo := Some a\<rparr>"

text \<open>A call: its outcome, and the call recorded.\<close>

fun outcome :: "thrown + 'a \<Rightarrow> thrown option" where
  "outcome (Inl x) = Some x"
| "outcome (Inr _) = None"

definition call :: "effect \<Rightarrow> thrown + 'a \<Rightarrow> world \<Rightarrow> (thrown + 'a) \<times> world" where
  "call ef r w = (r, effects_update (\<lambda>prev. prev @ [(ef, outcome r)]) w)"

text \<open>The calls made between two worlds.\<close>

definition new_effects :: "world \<Rightarrow> world \<Rightarrow> (effect \<times> thrown option) list" where
  "new_effects w w' = drop (length (effects w)) (effects w')"

text \<open>\<open>error instanceof Error ? error.message : 'Unknown error'\<close>\<close>

fun errorMsg :: "thrown \<Rightarrow> string" where
  "errorMsg (Error m) = m"
| "errorMsg NonError = ''Unknown error''"

text \<open>\<open>addresses[0]\<close>, which is \<open>undefined\<close> on an empty array.\<close>

fun first_address :: "address list \<Rightarrow> address option" where
  "first_address [] = None"
| "first_address (a # _) = Some a"

fun arg_of_owner :: "address option \<Rightarrow> arg" where
  "arg_of_owner None = ArgUndefined"
| "arg_of_owner (Some a) = ArgAddress a"

text \<open>\<open>toString()\<close> of a \<open>bigint\<close>: its decimal digits.\<close>

fun digits :: "nat \<Rightarrow> string" where
  "digits n = (if n < 10 then [''0123456789'' ! n]
               else digits (n div 10) @ [''0123456789'' ! (n mod 10)])"

declare digits.simps [simp del]

definition toString :: "int \<Rightarrow> string" where
  "toString i = (if i < 0 then CHR ''-'' # digits (nat (- i)) else digits (nat i))"

text \<open>viem's \<open>hexToBigInt\<close> is \<open>BigInt(hex)\<close>: the unsigned number the hex string
  denotes, and a \<open>SyntaxError\<close> on the empty hex string \<open>0x\<close>.\<close>

definition hexToBigInt :: "hex \<Rightarrow> thrown + int" where
  "hexToBigInt h =
     (if h = [] then Inl (Error ''Cannot convert 0x to a BigInt'')
      else Inr (int (be_value h)))"

section \<open>The pipeline\<close>

text \<open>Modelled from the spec: the toolkit's \<open>toMetaMaskSmartAccount\<close> is a library
  function that is not part of the sources. Following sections 3 and 4.3, the address of
  the account is a pure function of the implementation variant, the deployment arguments
  and the salt; the resolution itself may fail; the account exposes a signing capability
  that forwards to the configured delegate.\<close>

definition toMetaMaskSmartAccount ::
  "env \<Rightarrow> smart_account_params \<Rightarrow> world \<Rightarrow> (thrown + smart_account) \<times> world" where
  "toMetaMaskSmartAccount e p w =
     call (ToMetaMaskSmartAccount p)
       (case account_signer e p of
          Inl x \<Rightarrow> Inl x
        | Inr sign \<Rightarrow>
            Inr \<lparr>address = getCounterfactualAddress e (implementation p) (deployParams p) (deploySalt p),
                 signTypedData = sign\<rparr>) w"

definition permit_types :: typed_data_types where
  "permit_types =
     \<lparr>EIP712Domain =
        [(''name'', ''string''), (''version'', ''string''),
         (''chainId'', ''uint256''), (''verifyingContract'', ''address'')],
      Permit =
        [(''owner'', ''address''), (''spender'', ''address''), (''value'', ''uint256''),
         (''nonce'', ''uint256''), (''deadline'', ''uint256'')]\<rparr>"

text \<open>\<open>signPermit\<close>: three reads of the token contract, then the account's
  \<open>signTypedData\<close>; whatever one of them throws is what \<open>signPermit\<close> throws.\<close>

definition signPermit ::
  "env \<Rightarrow> address \<Rightarrow> public_client \<Rightarrow> smart_account \<Rightarrow> address \<Rightarrow> int \<Rightarrow> world
     \<Rightarrow> (thrown + hex) \<times> world" where
  "signPermit e tokenAddress cl acct spenderAddress permitAmount w =
     (case call (ReadName tokenAddress) (read_name e tokenAddress) w of
        (Inl x, w) \<Rightarrow> (Inl x, w)
      | (Inr nm, w) \<Rightarrow>
     (case call (ReadVersion tokenAddress) (read_version e tokenAddress) w of
        (Inl x, w) \<Rightarrow> (Inl x, w)
      | (Inr ver, w) \<Rightarrow>
     (let dom = \<lparr>name = nm, version = ver, chainId = chain_id cl,
                  verifyingContract = tokenAddress\<rparr>
      in case call (ReadNonces tokenAddress (address acct))
                (read_nonces e tokenAddress (address acct)) w of
        (Inl x, w) \<Rightarrow> (Inl x, w)
      | (Inr n, w) \<Rightarrow>
     (let msg = \<lparr>owner = address acct, spender = spenderAddress,
                  msg_value = toString permitAmount, nonce = toString n,
                  deadline = toString maxUint256\<rparr>;
          td = \<lparr>primaryType = ''Permit'', domain = dom, types = permit_types, message = msg\<rparr>
      in call (SignTypedData (address acct) td) (signTypedData acct td) w))))"

text \<open>The \<open>estimateFeesPerGas\<close> callback handed to the bundler client: the log line, the
  request to the oracle, and the two conversions of the standard tier, in the order of
  the object literal.\<close>

definition estimateFeesPerGas :: "env \<Rightarrow> world \<Rightarrow> (thrown + fees) \<times> world" where
  "estimateFeesPerGas e w =
     (let w = addLog info (FetchingGasPrices, []) w
      in case call GasPriceRequest (request_gas_price e) w of
        (Inl x, w) \<Rightarrow> (Inl x, w)
      | (Inr price, w) \<Rightarrow>
     (case call (HexToBigInt (tier_maxFeePerGas (standard price)))
             (hexToBigInt (tier_maxFeePerGas (standard price))) w of
        (Inl x, w) \<Rightarrow> (Inl x, w)
      | (Inr maxFee, w) \<Rightarrow>
     (case call (HexToBigInt (tier_maxPriorityFeePerGas (standard price)))
             (hexToBigInt (tier_maxPriorityFeePerGas (standard price))) w of
        (Inl x, w) \<Rightarrow> (Inl x, w)
      | (Inr maxPriorityFee, w) \<Rightarrow>
          (Inr \<lparr>maxFeePerGas = maxFee, maxPriorityFeePerGas = maxPriorityFee\<rparr>, w))))"

text \<open>The \<open>getPaymasterData\<close> method of the \<open>paymaster\<close> object.\<close>

definition getPaymasterData :: "hex \<Rightarrow> paymaster_data" where
  "getPaymasterData pmData =
     \<lparr>paymaster = PAYMASTER_V08_ADDRESS, paymasterData = pmData,
      paymasterVerificationGasLimit = 200000, paymasterPostOpGasLimit = 15000,
      isFinal = True\<rparr>"

text \<open>Modelled from the spec: viem's \<open>sendUserOperation\<close> is a library function that is
  not part of the sources. Following section 4.4, the assembler invokes the fee-estimation
  capability at submission time and fails if it fails, obtains the paymaster data from
  the provider, and submits the operation made of the account, the calls, the fees and
  the paymaster data to the bundler endpoint, returning the operation hash.\<close>

definition sendUserOperation ::
  "env \<Rightarrow> (world \<Rightarrow> (thrown + fees) \<times> world) \<Rightarrow> paymaster_data \<Rightarrow> smart_account
     \<Rightarrow> erc20_call list \<Rightarrow> world \<Rightarrow> (thrown + hex) \<times> world" where
  "sendUserOperation e estimate pm acct cs w =
     (case estimate w of
        (Inl x, w) \<Rightarrow> (Inl x, w)
      | (Inr fs, w) \<Rightarrow>
          (let uo = \<lparr>account = address acct, calls = cs, uo_fees = fs, uo_paymaster = pm\<rparr>
           in call (SendUserOperation uo) (submit e uo) w))"

text \<open>The parameters both \<open>setupAccount\<close> and \<open>sendTransaction\<close> pass to
  \<open>toMetaMaskSmartAccount\<close>.\<close>

definition hybrid_params ::
  "public_client \<Rightarrow> address option \<Rightarrow> wallet_client \<Rightarrow> smart_account_params" where
  "hybrid_params publicClient own wc =
     \<lparr>client = publicClient, implementation = Hybrid, deployParams = (own, [], [], []),
      deploySalt = [], signatory = wc\<rparr>"

text \<open>The body of the \<open>try\<close> block of \<open>setupAccount\<close>.\<close>

definition setupAccount_try :: "env \<Rightarrow> wallet_client \<Rightarrow> world \<Rightarrow> (thrown + unit) \<times> world" where
  "setupAccount_try e wc w =
     (let w = setLoading True w;
          w = clearLogs w;
          w = addLog info (SettingUpSmartAccount, []) w;
          w = updateStatus info (SettingUpAccount, []) w;
          w = addLog info (CreatingPublicClient, []) w;
          publicClient = createPublicClient arbitrumSepolia;
          w = addLog info (GettingAddresses, []) w
      in case call GetAddresses (getAddresses wc) w of
        (Inl x, w) \<Rightarrow> (Inl x, w)
      | (Inr addresses, w) \<Rightarrow>
     (let own = first_address addresses;
          w = addLog success (OwnerAddress, [arg_of_owner own]) w;
          w = addLog info (CreatingSmartAccount, []) w
      in case toMetaMaskSmartAccount e (hybrid_params publicClient own wc) w of
        (Inl x, w) \<Rightarrow> (Inl x, w)
      | (Inr smartAccount, w) \<Rightarrow>
     (let w = addLog success (SmartAccountCreated, [ArgAddress (address smartAccount)]) w;
          w = addLog info (SmartAccountDetails, []) w;
          w = addLog info (DetailAddress, [ArgAddress (address smartAccount)]) w;
          w = addLog info (DetailImplementation, [ArgImplementation Hybrid]) w;
          w = addLog info (DetailDeploySalt, []) w;
          w = addLog info (DetailOwner, [arg_of_owner own]) w;
          w = setAccountInfo
                \<lparr>info_address = address smartAccount, smartAccountBalance = ''0'',
                 ownerAddress = own, ownerBalance = ''0''\<rparr> w;
          w = addLog success (AccountSetupComplete, []) w;
          w = updateStatus success (AccountReady, []) w
      in (Inr (), w))))"

definition setupAccount :: "env \<Rightarrow> world \<Rightarrow> world" where
  "setupAccount e w =
     (case (isConnected w, walletClient w) of
        (True, Some wc) \<Rightarrow>
          (case setupAccount_try e wc w of
             (Inl x, w) \<Rightarrow>
               setLoading False
                 (updateStatus error (ErrorStatus, [ArgString (errorMsg x)])
                   (addLog error (AccountSetupFailed, [ArgString (errorMsg x)]) w))
           | (Inr _, w) \<Rightarrow> setLoading False w)
      | _ \<Rightarrow>
          addLog error (WalletNotConnected, [])
            (updateStatus error (ConnectFirst, []) w))"

text \<open>The body of the \<open>try\<close> block of \<open>sendTransaction\<close>.\<close>

definition sendTransaction_try :: "env \<Rightarrow> wallet_client \<Rightarrow> world \<Rightarrow> (thrown + unit) \<times> world" where
  "sendTransaction_try e wc w =
     (let w = setLoading True w;
          w = clearLogs w;
          w = addLog info (Starting, []) w;
          w = updateStatus info (Initializing, []) w;
          w = addLog info (SettingUpConnection, []) w;
          publicClient = createPublicClient arbitrumSepolia;
          w = addLog info (GettingAddresses, []) w
      in case call GetAddresses (getAddresses wc) w of
        (Inl x, w) \<Rightarrow> (Inl x, w)
      | (Inr addresses, w) \<Rightarrow>
     (let own = first_address addresses;
          w = addLog info (CreatingSmartAccount, []) w
      in case toMetaMaskSmartAccount e (hybrid_params publicClient own wc) w of
        (Inl x, w) \<Rightarrow> (Inl x, w)
      | (Inr smartAccount, w) \<Rightarrow>
     (let w = addLog success (SmartAccountResolved, [ArgAddress (address smartAccount)]) w;
          w = addLog info (PreparingTransferAmount, []) w
      in case call (ParseUnits (amount w) 6) (parseUnits e (amount w) 6) w of
        (Inl x, w) \<Rightarrow> (Inl x, w)
      | (Inr amountParsed, w) \<Rightarrow>
     (let w = addLog info (TransferAmount, [ArgString (amount w)]) w;
          w = addLog info (CreatingPermit, []) w;
          w = updateStatus info (CreatingPermitStatus, []) w;
          permitAmount = 10000000;
          w = addLog info (PermitAmount, [ArgString (formatUnits e permitAmount 6)]) w
      in case signPermit e USDC_ADDRESS publicClient smartAccount PAYMASTER_V08_ADDRESS
                permitAmount w of
        (Inl x, w) \<Rightarrow> (Inl x, w)
      | (Inr permitSignature, w) \<Rightarrow>
     (let w = addLog success (PermitSignatureCreated, []) w;
          w = addLog info (EncodingPaymasterData, []) w
      in case call (EncodePacked [Num 0, Addr USDC_ADDRESS, Num permitAmount, Blob permitSignature])
                (encodePaymasterData 0 USDC_ADDRESS permitAmount permitSignature) w of
        (Inl x, w) \<Rightarrow> (Inl x, w)
      | (Inr pmData, w) \<Rightarrow>
     (let w = addLog success (PaymasterConfigured, [ArgAddress PAYMASTER_V08_ADDRESS]) w;
          w = addLog info (CreatingBundlerClient, []) w;
          w = updateStatus info (CreatingBundlerClientStatus, []) w;
          w = addLog success (BundlerClientCreated, []) w;
          w = addLog info (SubmittingUserOperation, []) w;
          w = addLog info (Transferring, [ArgString (amount w), ArgString (recipient w)]) w;
          w = updateStatus info (SendingUserOperation, []) w
      in case sendUserOperation e (estimateFeesPerGas e) (getPaymasterData pmData) smartAccount
                [\<lparr>to = USDC_ADDRESS, functionName = ''transfer'',
                  args = (recipient w, amountParsed)\<rparr>] w of
        (Inl x, w) \<Rightarrow> (Inl x, w)
      | (Inr uoHash, w) \<Rightarrow>
     (let w = addLog success (UserOperationSubmitted, [ArgHex uoHash]) w;
          w = addLog info (WaitingForConfirmation, []) w;
          w = updateStatus info (WaitingStatus, [ArgHex uoHash]) w
      in case call (WaitForUserOperationReceipt uoHash)
                (waitForUserOperationReceipt e uoHash) w of
        (Inl x, w) \<Rightarrow> (Inl x, w)
      | (Inr rc, w) \<Rightarrow>
     (let w = addLog success (TransactionConfirmed, []) w;
          w = addLog success (TransactionHash, [ArgHex (transactionHash rc)]) w;
          w = addLog success (Sent, [ArgString (amount w), ArgString (recipient w)]) w;
          w = addLog success (GasPaidWithUSDC, []) w;
          w = updateStatus success (TransactionSuccessful, [ArgHex (transactionHash rc)]) w
      in (Inr (), w)))))))))"

text \<open>\<open>sendTransaction\<close>: the guard, the \<open>try\<close> block, the \<open>catch\<close> and the
  \<open>finally\<close>. An empty string is falsy.\<close>

definition guard_ok :: "world \<Rightarrow> bool" where
  "guard_ok w \<longleftrightarrow> isConnected w \<and> walletClient w \<noteq> None \<and> recipient w \<noteq> [] \<and> amount w \<noteq> []"

definition sendTransaction :: "env \<Rightarrow> world \<Rightarrow> world" where
  "sendTransaction e w =
     (case (guard_ok w, walletClient w) of
        (True, Some wc) \<Rightarrow>
          (case sendTransaction_try e wc w of
             (Inl x, w) \<Rightarrow>
               setLoading False
                 (updateStatus error (TransactionFailed, [ArgString (errorMsg x)])
                   (addLog error (TransactionFailed, [ArgString (errorMsg x)]) w))
           | (Inr _, w) \<Rightarrow> setLoading False w)
      | _ \<Rightarrow>
          addLog error (AllFieldsRequired, [])
            (updateStatus error (FillInAllFields, []) w))"

section \<open>Reading the log and the record of calls\<close>

definition templates :: "log_entry list \<Rightarrow> template list" where
  "templates ls = map (\<lambda>l. fst (snd l)) ls"

text \<open>\<open>precedes a b xs\<close>: an \<open>a\<close> occurs in \<open>xs\<close> before the first \<open>b\<close>.\<close>

definition precedes :: "'a \<Rightarrow> 'a \<Rightarrow> 'a list \<Rightarrow> bool" where
  "precedes a b xs \<longleftrightarrow> a \<in> set (takeWhile (\<lambda>x. x \<noteq> b) xs)"

text \<open>The log lines of a run of \<open>sendTransaction\<close> in which nothing throws.\<close>

definition pipeline_events :: "template list" where
  "pipeline_events =
     [Starting, SettingUpConnection, GettingAddresses, CreatingSmartAccount,
      SmartAccountResolved, PreparingTransferAmount, TransferAmount, CreatingPermit,
      PermitAmount, PermitSignatureCreated, EncodingPaymasterData, PaymasterConfigured,
      CreatingBundlerClient, BundlerClientCreated, SubmittingUserOperation, Transferring,
      FetchingGasPrices, UserOperationSubmitted, WaitingForConfirmation,
      TransactionConfirmed, TransactionHash, Sent, GasPaidWithUSDC]"

text \<open>The number of events a run of \<open>sendTransaction\<close> has logged when it makes a call
  of the given kind.\<close>

fun events_before :: "effect \<Rightarrow> nat" where
  "events_before GetAddresses = 3"
| "events_before (ToMetaMaskSmartAccount _) = 4"
| "events_before (ParseUnits _ _) = 6"
| "events_before (ReadName _) = 9"
| "events_before (ReadVersion _) = 9"
| "events_before (ReadNonces _ _) = 9"
| "events_before (SignTypedData _ _) = 9"
| "events_before (EncodePacked _) = 11"
| "events_before GasPriceRequest = 17"
| "events_before (HexToBigInt _) = 17"
| "events_before (SendUserOperation _) = 17"
| "events_before (WaitForUserOperationReceipt _) = 19"

definition valid_fields :: "int \<Rightarrow> address \<Rightarrow> int \<Rightarrow> bool" where
  "valid_fields mode tok amt \<longleftrightarrow>
     0 \<le> mode \<and> mode < 256 \<and> length tok = 20 \<and> 0 \<le> amt \<and> amt < 2 ^ 256"

text \<open>The typed data \<open>signPermit\<close> builds from what the three reads return.\<close>

definition permit_typed_data ::
  "string \<Rightarrow> string \<Rightarrow> int \<Rightarrow> address \<Rightarrow> address \<Rightarrow> address \<Rightarrow> int \<Rightarrow> int \<Rightarrow> typed_data" where
  "permit_typed_data nm ver cid tok own sp amt n =
     \<lparr>primaryType = ''Permit'',
      domain = \<lparr>name = nm, version = ver, chainId = cid, verifyingContract = tok\<rparr>,
      types = permit_types,
      message = \<lparr>owner = own, spender = sp, msg_value = toString amt, nonce = toString n,
                 deadline = toString maxUint256\<rparr>\<rparr>"

text \<open>The number a string of decimal digits denotes.\<close>

definition parse_decimal :: "string \<Rightarrow> nat" where
  "parse_decimal s = foldl (\<lambda>acc c. 10 * acc + (of_char c - 48)) 0 s"

section \<open>Concrete runs\<close>

text \<open>The owner and the smart account of the issue report, a wallet that returns the
  owner, and an environment in which every call succeeds.\<close>

definition owner0 :: address where
  "owner0 =
     [0x25, 0x14, 0x84, 0x4F, 0x31, 0x2c, 0x02, 0xAe, 0x3C, 0x9d,
      0x4f, 0xEb, 0x40, 0xdb, 0x4e, 0xC8, 0x83, 0x0b, 0x68, 0x44]"

definition smart0 :: address where
  "smart0 =
     [0xbd, 0x1f, 0xC6, 0x4F, 0x72, 0x71, 0x79, 0x58, 0xc4, 0xcc,
      0xbC, 0x41, 0xc4, 0x17, 0xEF, 0xb7, 0xaf, 0x0F, 0xEe, 0x20]"

definition sig0 :: hex where
  "sig0 = replicate 65 0x1b"

definition wallet0 :: wallet_client where
  "wallet0 = \<lparr>getAddresses = Inr [owner0]\<rparr>"

definition env_ok :: env where
  "env_ok =
     \<lparr>getCounterfactualAddress = (\<lambda>_ _ _. smart0),
      account_signer = (\<lambda>_. Inr (\<lambda>_. Inr sig0)),
      read_name = (\<lambda>_. Inr ''USDC''),
      read_version = (\<lambda>_. Inr ''2''),
      read_nonces = (\<lambda>_ _. Inr 7),
      parseUnits = (\<lambda>s _. if s = ''0.1'' then Inr 100000
                            else if s = ''2.5'' then Inr 2500000
                            else Inl (Error ''InvalidDecimalNumberError'')),
      formatUnits = (\<lambda>_ _. ''10''),
      request_gas_price =
        Inr \<lparr>standard = \<lparr>tier_maxFeePerGas = [0x05, 0xf5, 0xe1, 0x00],
                           tier_maxPriorityFeePerGas = [0x0f, 0x42, 0x40]\<rparr>\<rparr>,
      submit = (\<lambda>_. Inr [0xab]),
      waitForUserOperationReceipt = (\<lambda>_. Inr \<lparr>transactionHash = [0xcd]\<rparr>)\<rparr>"

definition world0 :: world where
  "world0 =
     \<lparr>recipient = ''0x5732e1bccaeb161e3b93d126010042b0f1b9cfc9'', amount = ''0.1'',
      loading = False, status = None, logs = [], accountInfo = None,
      walletClient = Some wallet0, isConnected = True, effects = []\<rparr>"

text \<open>An account whose \<open>signTypedData\<close> always throws, as the smart account of the issue
  report does, and environments in which one call fails.\<close>

definition account0 :: smart_account where
  "account0 = \<lparr>address = smart0, signTypedData = (\<lambda>_. Inr sig0)\<rparr>"



definition env_unsigned :: env where
  "env_unsigned =
     env_ok\<lparr>account_signer := (\<lambda>_. Inr (\<lambda>_. Inl (Error ''SigningUnsupported'')))\<rparr>"

definition world_wallet_down :: world where
  "world_wallet_down =
     world0\<lparr>walletClient := Some \<lparr>getAddresses = Inl (Error ''fetch failed'')\<rparr>\<rparr>"

definition env_fee_down :: env where
  "env_fee_down = env_ok\<lparr>request_gas_price := Inl (Error ''fetch failed'')\<rparr>"


definition env_submit_down :: env where
  "env_submit_down = env_ok\<lparr>submit := (\<lambda>_. Inl (Error ''fetch failed''))\<rparr>"

definition env_wait_down :: env where
  "env_wait_down =
     env_ok\<lparr>waitForUserOperationReceipt := (\<lambda>_. Inl (Error ''fetch failed''))\<rparr>"

text \<open>The payload and the user operation of the run in which every call succeeds, for a
  transfer of \<open>v\<close> units.\<close>

definition payload0 :: hex where
  "payload0 = [0] @ USDC_ADDRESS @ be_bytes 32 10000000 @ sig0"

definition uo0 :: "int \<Rightarrow> user_operation" where
  "uo0 v =
     \<lparr>account = smart0,
      calls = [\<lparr>to = USDC_ADDRESS, functionName = ''transfer'',
                args = (''0x5732e1bccaeb161e3b93d126010042b0f1b9cfc9'', v)\<rparr>],
      uo_fees = \<lparr>maxFeePerGas = 100000000, maxPriorityFeePerGas = 1000000\<rparr>,
      uo_paymaster =
        \<lparr>paymaster = PAYMASTER_V08_ADDRESS, paymasterData = payload0,
         paymasterVerificationGasLimit = 200000, paymasterPostOpGasLimit = 15000,
         isFinal = True\<rparr>\<rparr>"

section \<open>Properties of the packed encoding\<close>

lemma length_be_bytes: "length (be_bytes n v) = n"
  by (induction n arbitrary: v) simp_all

lemma be_value_acc_append:
  "be_value_acc acc (xs @ ys) = be_value_acc (be_value_acc acc xs) ys"
  by (induction xs arbitrary: acc) simp_all

lemma unat_byte_of_nat: "unat (of_nat (v mod 256) :: byte) = v mod 256"
  by (simp add: unat_of_nat)

lemma be_value_acc_be_bytes:
  "be_value_acc acc (be_bytes n v) = acc * 256 ^ n + v mod 256 ^ n"
proof (induction n arbitrary: v acc)
  case 0
  show ?case by simp
next
  case (Suc n)
  have split: "v mod (256 * 256 ^ n) = 256 * ((v div 256) mod 256 ^ n) + v mod 256"
    by (simp add: mod_mult2_eq)
  show ?case
    by (simp add: be_value_acc_append Suc.IH unat_byte_of_nat split algebra_simps)
qed

lemma be_value_be_bytes: "v < 256 ^ n \<Longrightarrow> be_value (be_bytes n v) = v"
  by (simp add: be_value_def be_value_acc_be_bytes)

lemma be_bytes_numeral:
  "be_bytes (numeral k) v = be_bytes (pred_numeral k) (v div 256) @ [of_nat (v mod 256)]"
proof -
  have "be_bytes (numeral k) v = be_bytes (Suc (pred_numeral k)) v"
    by (simp only: numeral_eq_Suc)
  then show ?thesis
    by (simp only: be_bytes.simps)
qed

lemma be_bytes_permitAmount:
  "be_bytes 32 10000000 =
     [0, 0, 0, 0, 0, 0, 0, 0, 0, 0, 0, 0, 0, 0, 0, 0, 0, 0, 0, 0, 0, 0, 0, 0, 0, 0, 0, 0, 0,
      0x98, 0x96, 0x80]"
  by (simp add: be_bytes_numeral)

lemma uint_mode_byte: "0 \<le> m \<Longrightarrow> m < 256 \<Longrightarrow> uint (word_of_int m :: byte) = m"
  by (simp add: uint_word_of_int)

lemma amount_fits: "0 \<le> a \<Longrightarrow> a < 2 ^ 256 \<Longrightarrow> nat a < 256 ^ 32"
proof -
  have "(256::nat) ^ 32 = 2 ^ 256" by simp
  moreover assume "0 \<le> a" "a < 2 ^ 256"
  ultimately show ?thesis by (simp add: nat_less_iff)
qed

lemma encodePaymasterData_eq:
  assumes "0 \<le> mode" "mode < 256" "length tok = 20" "0 \<le> amt" "amt < 2 ^ 256"
  shows "encodePaymasterData mode tok amt sg =
           Inr (of_int mode # tok @ be_bytes 32 (nat amt) @ sg)"
proof -
  have one: "be_bytes (Suc 0) (nat mode) = [of_int mode]"
    using assms(1,2) by (simp add: nat_mod_distrib flip: of_nat_nat)
  show ?thesis
    using assms by (simp add: encodePaymasterData_def one)
qed

lemma decode_encoded:
  assumes "valid_fields m t a" "encodePaymasterData m t a s = Inr p"
  shows "decode_payload p = Some (m, t, a, s)"
proof -
  from assms(1) have v: "0 \<le> m" "m < 256" "length t = 20" "0 \<le> a" "a < 2 ^ 256"
    by (simp_all add: valid_fields_def)
  from assms(2) have p: "p = word_of_int m # t @ be_bytes 32 (nat a) @ s"
    using v by (simp add: encodePaymasterData_eq)
  have amt: "int (be_value (be_bytes 32 (nat a))) = a"
    using v(4,5) by (simp add: be_value_be_bytes amount_fits)
  show ?thesis
    using v amt
    by (simp add: p decode_payload_def uint_mode_byte length_be_bytes)
qed

lemma valid_permit_fields: "valid_fields 0 USDC_ADDRESS 10000000"
  by (simp add: valid_fields_def USDC_ADDRESS_def)

lemma payload_fields:
  "encodePaymasterData 0 USDC_ADDRESS 10000000 sg = Inr p \<Longrightarrow>
     decode_payload p = Some (0, USDC_ADDRESS, 10000000, sg)"
  using decode_encoded [OF valid_permit_fields] by blast

lemma payload0_eq: "encodePaymasterData 0 USDC_ADDRESS 10000000 sig0 = Inr payload0"
  by (simp add: encodePaymasterData_eq USDC_ADDRESS_def payload0_def)

text \<open>
  C2. For every mode byte, 20-byte token address, unsigned 256-bit amount and signature,
  the payload is the 1-byte mode, then the 20 bytes of the address, then the amount on 32
  bytes, big-endian, then the signature as it is, with no length prefix; its length is
  1 + 20 + 32 + the length of the signature.
\<close>

theorem paymaster_payload_layout:
  assumes "valid_fields mode tok amt"
  shows "encodePaymasterData mode tok amt sg =
           Inr ([word_of_int mode] @ tok @ be_bytes 32 (nat amt) @ sg)
       \<and> uint (word_of_int mode :: byte) = mode
       \<and> length tok = 20
       \<and> length (be_bytes 32 (nat amt)) = 32
       \<and> int (be_value (be_bytes 32 (nat amt))) = amt
       \<and> length ([word_of_int mode] @ tok @ be_bytes 32 (nat amt) @ sg) = 1 + 20 + 32 + length sg"
proof -
  from assms have v: "0 \<le> mode" "mode < 256" "length tok = 20" "0 \<le> amt" "amt < 2 ^ 256"
    by (simp_all add: valid_fields_def)
  have "be_value (be_bytes 32 (nat amt)) = nat amt"
    using v(4,5) by (intro be_value_be_bytes amount_fits)
  then have "int (be_value (be_bytes 32 (nat amt))) = amt"
    using v(4) by simp
  then show ?thesis
    using v by (simp add: encodePaymasterData_eq uint_mode_byte length_be_bytes)
qed

text \<open>The payload of the page: mode 0, the USDC address, 10000000 and a 65-byte signature
  give 118 bytes, the amount being \<open>0x989680\<close> behind 29 zero bytes.\<close>

theorem paymaster_payload_layout_witness:
  "valid_fields 0 USDC_ADDRESS 10000000
   \<and> encodePaymasterData 0 USDC_ADDRESS 10000000 sig0 =
       Inr ([0] @ USDC_ADDRESS
            @ [0, 0, 0, 0, 0, 0, 0, 0, 0, 0, 0, 0, 0, 0, 0, 0, 0, 0, 0, 0, 0, 0, 0, 0, 0, 0, 0,
               0, 0, 0x98, 0x96, 0x80]
            @ sig0)
   \<and> length ([0 :: byte] @ USDC_ADDRESS @ be_bytes 32 10000000 @ sig0) = 1 + 20 + 32 + 65"
  using paymaster_payload_layout [of 0 USDC_ADDRESS 10000000 sig0]
  by (simp add: valid_fields_def USDC_ADDRESS_def sig0_def be_bytes_permitAmount)

text \<open>
  C3. Reading an encoded payload (mode at byte 0, address at bytes 1..20, amount at
  bytes 21..52) gives back exactly the mode, the address and the amount that were
  encoded, and the signature; and two encodings with signatures of the same length are
  equal only if mode, address and amount are equal.
\<close>

theorem paymaster_payload_injective_roundtrip:
  assumes "valid_fields ma ta aa" and "valid_fields mb tb ab"
  shows "(\<exists>p. encodePaymasterData ma ta aa sa = Inr p
             \<and> decode_payload p = Some (ma, ta, aa, sa))
       \<and> (length sa = length sb
            \<and> encodePaymasterData ma ta aa sa = encodePaymasterData mb tb ab sb
            \<longrightarrow> ma = mb \<and> ta = tb \<and> aa = ab)"
proof -
  obtain p where p: "encodePaymasterData ma ta aa sa = Inr p"
    using assms(1) by (simp add: valid_fields_def encodePaymasterData_eq)
  obtain q where q: "encodePaymasterData mb tb ab sb = Inr q"
    using assms(2) by (simp add: valid_fields_def encodePaymasterData_eq)
  note d = decode_encoded [OF assms(1) p] and d' = decode_encoded [OF assms(2) q]
  have "ma = mb \<and> ta = tb \<and> aa = ab"
    if "encodePaymasterData ma ta aa sa = encodePaymasterData mb tb ab sb"
    using that p q d d' by auto
  then show ?thesis using p d by blast
qed

theorem paymaster_payload_injective_roundtrip_witness:
  "valid_fields 0 USDC_ADDRESS 10000000 \<and> valid_fields 1 USDC_ADDRESS 10000000
   \<and> decode_payload payload0 = Some (0, USDC_ADDRESS, 10000000, sig0)
   \<and> encodePaymasterData 0 USDC_ADDRESS 10000000 sig0
       \<noteq> encodePaymasterData 1 USDC_ADDRESS 10000000 sig0"
  using paymaster_payload_injective_roundtrip [where ma = 0 and ta = USDC_ADDRESS
      and aa = 10000000 and mb = 1 and tb = USDC_ADDRESS and ab = 10000000 and sa = sig0
      and sb = sig0]
  by (simp add: valid_fields_def USDC_ADDRESS_def payload0_eq [unfolded USDC_ADDRESS_def])

section \<open>Properties of the decimal rendering\<close>

lemma digit_value: "d < 10 \<Longrightarrow> (of_char (''0123456789'' ! d) :: nat) - 48 = d"
proof -
  assume "d < 10"
  then have "d \<in> {0, 1, 2, 3, 4, 5, 6, 7, 8, 9}" by auto
  then show ?thesis by auto
qed

lemma parse_decimal_snoc: "parse_decimal (s @ [c]) = 10 * parse_decimal s + (of_char c - 48)"
  by (simp add: parse_decimal_def)

lemma parse_decimal_digits: "parse_decimal (digits n) = n"
proof (induction n rule: digits.induct)
  case (1 n)
  show ?case
  proof (cases "n < 10")
    case True
    then show ?thesis
      by (subst digits.simps) (simp add: parse_decimal_def digit_value)
  next
    case False
    then have "parse_decimal (digits (n div 10)) = n div 10"
      using "1.IH" by simp
    with False show ?thesis
      by (subst digits.simps) (simp add: parse_decimal_snoc digit_value)
  qed
qed

lemma parse_decimal_toString: "0 \<le> i \<Longrightarrow> int (parse_decimal (toString i)) = i"
  by (simp add: toString_def parse_decimal_digits)

lemma toString_permitAmount: "toString 10000000 = ''10000000''"
  by (simp add: toString_def digits.simps)

lemma hexToBigInt_fees:
  "hexToBigInt [0x05, 0xf5, 0xe1, 0x00] = Inr 100000000"
  "hexToBigInt [0x0f, 0x42, 0x40] = Inr 1000000"
  by (simp_all add: hexToBigInt_def be_value_def)

lemma hexToBigInt_empty: "hexToBigInt [] = Inl (Error ''Cannot convert 0x to a BigInt'')"
  by (simp add: hexToBigInt_def)

section \<open>Properties of the permit signer\<close>

lemmas page_defs = updateStatus_def addLog_def clearLogs_def setLoading_def setAccountInfo_def
  call_def new_effects_def

lemmas pipeline_defs = sendTransaction_def sendTransaction_try_def signPermit_def
  toMetaMaskSmartAccount_def sendUserOperation_def estimateFeesPerGas_def getPaymasterData_def
  hybrid_params_def createPublicClient_def guard_ok_def

lemmas setup_defs = setupAccount_def setupAccount_try_def toMetaMaskSmartAccount_def
  hybrid_params_def createPublicClient_def

lemmas run0_defs = env_ok_def world0_def wallet0_def hexToBigInt_fees hexToBigInt_empty

lemma signPermit_effects:
  "(SignTypedData a td, r) \<in> set (new_effects w (snd (signPermit e tok cl acct sp amt w)))
   \<Longrightarrow> a = address acct \<and> deadline (message td) = toString maxUint256
       \<and> msg_value (message td) = toString amt \<and> spender (message td) = sp
       \<and> owner (message td) = address acct \<and> verifyingContract (domain td) = tok"
  by (auto simp add: signPermit_def page_defs Let_def split: sum.splits)




text \<open>
  C4. When the three reads succeed, the typed data \<open>signPermit\<close> hands to the account's
  \<open>signTypedData\<close> has the domain made of the token's name and version as just read, the
  chain id of the client and the token address as verifying contract, and the message made
  of the account's address as owner, the spender, the value, the nonce as just read for
  that owner, and the deadline; the reads are made inside the call, before the signing.
\<close>

theorem signPermit_typed_data:
  assumes "read_name e tok = Inr nm" and "read_version e tok = Inr ver"
    and "read_nonces e tok (address acct) = Inr n"
  shows "fst (signPermit e tok cl acct sp amt w) =
           signTypedData acct
             \<lparr>primaryType = ''Permit'',
              domain = \<lparr>name = nm, version = ver, chainId = chain_id cl,
                        verifyingContract = tok\<rparr>,
              types = permit_types,
              message = \<lparr>owner = address acct, spender = sp, msg_value = toString amt,
                         nonce = toString n, deadline = toString maxUint256\<rparr>\<rparr>
       \<and> map fst (new_effects w (snd (signPermit e tok cl acct sp amt w))) =
           [ReadName tok, ReadVersion tok, ReadNonces tok (address acct),
            SignTypedData (address acct)
              \<lparr>primaryType = ''Permit'',
               domain = \<lparr>name = nm, version = ver, chainId = chain_id cl,
                         verifyingContract = tok\<rparr>,
               types = permit_types,
               message = \<lparr>owner = address acct, spender = sp, msg_value = toString amt,
                          nonce = toString n, deadline = toString maxUint256\<rparr>\<rparr>]"
  using assms by (simp add: signPermit_def page_defs Let_def)

theorem signPermit_typed_data_witness:
  "read_name env_ok USDC_ADDRESS = Inr ''USDC''
   \<and> read_version env_ok USDC_ADDRESS = Inr ''2''
   \<and> read_nonces env_ok USDC_ADDRESS (address account0) = Inr 7
   \<and> fst (signPermit env_ok USDC_ADDRESS (createPublicClient arbitrumSepolia) account0
            PAYMASTER_V08_ADDRESS 10000000 world0) = Inr sig0
   \<and> map fst (new_effects world0 (snd (signPermit env_ok USDC_ADDRESS
         (createPublicClient arbitrumSepolia) account0 PAYMASTER_V08_ADDRESS 10000000 world0))) =
       [ReadName USDC_ADDRESS, ReadVersion USDC_ADDRESS, ReadNonces USDC_ADDRESS smart0,
        SignTypedData smart0
          \<lparr>primaryType = ''Permit'',
           domain = \<lparr>name = ''USDC'', version = ''2'', chainId = 421614,
                     verifyingContract = USDC_ADDRESS\<rparr>,
           types = permit_types,
           message = \<lparr>owner = smart0, spender = PAYMASTER_V08_ADDRESS,
                      msg_value = ''10000000'', nonce = ''7'',
                      deadline = toString maxUint256\<rparr>\<rparr>]"
  using signPermit_typed_data [of env_ok USDC_ADDRESS "''USDC''" "''2''" account0 7
      "createPublicClient arbitrumSepolia" PAYMASTER_V08_ADDRESS 10000000 world0]
  by (simp add: env_ok_def account0_def createPublicClient_def arbitrumSepolia_def
      toString_def digits.simps)

text \<open>
  C10. Every typed data that \<open>signPermit\<close> hands to the signer has as deadline the decimal
  rendering of \<open>maxUint256\<close>, which is 2^256 - 1 and is the number that rendering denotes:
  no invocation produces a permit with another deadline.
\<close>

theorem permit_deadline_is_maxUint256:
  assumes "(SignTypedData a td, r) \<in> set (new_effects w (snd (signPermit e tok cl acct sp amt w)))"
  shows "deadline (message td) = toString maxUint256
       \<and> int (parse_decimal (deadline (message td))) = 2 ^ 256 - 1"
proof -
  have d: "deadline (message td) = toString maxUint256"
    using signPermit_effects [OF assms] by simp
  have "int (parse_decimal (toString maxUint256)) = maxUint256"
    by (rule parse_decimal_toString) (simp add: maxUint256_def)
  with d show ?thesis by (simp add: maxUint256_def)
qed

theorem permit_deadline_is_maxUint256_witness:
  "(SignTypedData smart0 (permit_typed_data ''USDC'' ''2'' 421614 USDC_ADDRESS smart0
        PAYMASTER_V08_ADDRESS 10000000 7), None)
     \<in> set (new_effects world0 (snd (signPermit env_ok USDC_ADDRESS
           (createPublicClient arbitrumSepolia) account0 PAYMASTER_V08_ADDRESS 10000000 world0)))
   \<and> deadline (message (permit_typed_data ''USDC'' ''2'' 421614 USDC_ADDRESS smart0
        PAYMASTER_V08_ADDRESS 10000000 7)) = toString maxUint256
   \<and> int (parse_decimal (deadline (message (permit_typed_data ''USDC'' ''2'' 421614 USDC_ADDRESS
        smart0 PAYMASTER_V08_ADDRESS 10000000 7)))) = 2 ^ 256 - 1"
proof -
  have m: "(SignTypedData smart0 (permit_typed_data ''USDC'' ''2'' 421614 USDC_ADDRESS smart0
        PAYMASTER_V08_ADDRESS 10000000 7), None)
     \<in> set (new_effects world0 (snd (signPermit env_ok USDC_ADDRESS
           (createPublicClient arbitrumSepolia) account0 PAYMASTER_V08_ADDRESS 10000000 world0)))"
    by (simp add: signPermit_def page_defs Let_def env_ok_def account0_def world0_def
        createPublicClient_def arbitrumSepolia_def permit_typed_data_def)
  show ?thesis
    using m permit_deadline_is_maxUint256 [OF m] by blast
qed

section \<open>Properties of the account resolution\<close>

lemma toMetaMaskSmartAccount_address:
  "fst (toMetaMaskSmartAccount e p w) = Inr sa \<Longrightarrow>
     address sa = getCounterfactualAddress e (implementation p) (deployParams p) (deploySalt p)"
  by (auto simp add: toMetaMaskSmartAccount_def call_def split: sum.splits)

lemma setupAccount_address:
  "isConnected w \<Longrightarrow> walletClient w = Some wc \<Longrightarrow> getAddresses wc = Inr as \<Longrightarrow>
   (success, (SmartAccountCreated, [ArgAddress a])) \<in> set (logs (setupAccount e w)) \<Longrightarrow>
   a = getCounterfactualAddress e Hybrid (first_address as, [], [], []) []"
  by (auto simp add: setup_defs page_defs Let_def split: sum.splits)

lemma sendTransaction_address:
  "guard_ok w \<Longrightarrow> walletClient w = Some wc \<Longrightarrow> getAddresses wc = Inr as \<Longrightarrow>
   (success, (SmartAccountResolved, [ArgAddress a])) \<in> set (logs (sendTransaction e w)) \<Longrightarrow>
   a = getCounterfactualAddress e Hybrid (first_address as, [], [], []) []"
  by (auto simp add: pipeline_defs page_defs Let_def split: sum.splits)

text \<open>
  C5. Two resolutions with the same implementation variant, deployment arguments and salt
  give the same account address. In the page: when the wallet returns the same first
  address to \<open>setupAccount\<close> and to \<open>sendTransaction\<close>, the address the former logs as
  created and the address the latter logs as resolved are the same.
\<close>

theorem smart_account_resolution_idempotent:
  "(fst (toMetaMaskSmartAccount e p w) = Inr sa \<and> fst (toMetaMaskSmartAccount e p' w') = Inr sa'
      \<and> implementation p = implementation p' \<and> deployParams p = deployParams p'
      \<and> deploySalt p = deploySalt p'
     \<longrightarrow> address sa = address sa')
   \<and> (isConnected wa \<and> walletClient wa = Some wca \<and> getAddresses wca = Inr asa
      \<and> guard_ok wb \<and> walletClient wb = Some wcb \<and> getAddresses wcb = Inr asb
      \<and> first_address asa = first_address asb
      \<and> (success, (SmartAccountCreated, [ArgAddress aa])) \<in> set (logs (setupAccount e wa))
      \<and> (success, (SmartAccountResolved, [ArgAddress ab])) \<in> set (logs (sendTransaction e wb))
     \<longrightarrow> aa = ab)"
proof (intro conjI impI)
  assume h: "fst (toMetaMaskSmartAccount e p w) = Inr sa \<and> fst (toMetaMaskSmartAccount e p' w') = Inr sa'
      \<and> implementation p = implementation p' \<and> deployParams p = deployParams p'
      \<and> deploySalt p = deploySalt p'"
  then have "address sa = getCounterfactualAddress e (implementation p) (deployParams p) (deploySalt p)"
    using toMetaMaskSmartAccount_address by blast
  moreover from h
  have "address sa' = getCounterfactualAddress e (implementation p') (deployParams p') (deploySalt p')"
    using toMetaMaskSmartAccount_address by blast
  ultimately show "address sa = address sa'"
    using h by simp
next
  assume h: "isConnected wa \<and> walletClient wa = Some wca \<and> getAddresses wca = Inr asa
      \<and> guard_ok wb \<and> walletClient wb = Some wcb \<and> getAddresses wcb = Inr asb
      \<and> first_address asa = first_address asb
      \<and> (success, (SmartAccountCreated, [ArgAddress aa])) \<in> set (logs (setupAccount e wa))
      \<and> (success, (SmartAccountResolved, [ArgAddress ab])) \<in> set (logs (sendTransaction e wb))"
  then have "aa = getCounterfactualAddress e Hybrid (first_address asa, [], [], []) []"
    using setupAccount_address by blast
  moreover from h have "ab = getCounterfactualAddress e Hybrid (first_address asb, [], [], []) []"
    using sendTransaction_address by blast
  ultimately show "aa = ab" using h by simp
qed

theorem smart_account_resolution_idempotent_witness:
  "isConnected world0 \<and> guard_ok world0 \<and> walletClient world0 = Some wallet0
   \<and> getAddresses wallet0 = Inr [owner0]
   \<and> (success, (SmartAccountCreated, [ArgAddress smart0])) \<in> set (logs (setupAccount env_ok world0))
   \<and> (success, (SmartAccountResolved, [ArgAddress smart0]))
        \<in> set (logs (sendTransaction env_ok world0))
   \<and> accountInfo (setupAccount env_ok world0) =
        Some \<lparr>info_address = smart0, smartAccountBalance = ''0'', ownerAddress = Some owner0,
              ownerBalance = ''0''\<rparr>"
proof -
  have s: "(success, (SmartAccountCreated, [ArgAddress smart0])) \<in> set (logs (setupAccount env_ok world0))"
    by (simp add: setup_defs page_defs Let_def run0_defs)
  have t: "(success, (SmartAccountResolved, [ArgAddress smart0]))
        \<in> set (logs (sendTransaction env_ok world0))"
    by (simp add: pipeline_defs page_defs Let_def run0_defs payload0_eq)
  have g: "isConnected world0 \<and> guard_ok world0 \<and> walletClient world0 = Some wallet0
   \<and> getAddresses wallet0 = Inr [owner0]"
    by (simp add: guard_ok_def world0_def wallet0_def)
  have i: "accountInfo (setupAccount env_ok world0) =
        Some \<lparr>info_address = smart0, smartAccountBalance = ''0'', ownerAddress = Some owner0,
              ownerBalance = ''0''\<rparr>"
    by (simp add: setup_defs page_defs Let_def run0_defs)
  have "smart0 = smart0"
    using s t g smart_account_resolution_idempotent [where e = env_ok and wa = world0
        and wca = wallet0 and asa = "[owner0]" and wb = world0 and wcb = wallet0
        and asb = "[owner0]" and aa = smart0 and ab = smart0]
    by blast
  with s t g i show ?thesis by blast
qed

section \<open>Properties of the pipeline\<close>








text \<open>
  C7 (as amended). A run of \<open>sendTransaction\<close> that passes the guard logs its events in
  one fixed order, the one of \<open>pipeline_events\<close>. A run in which no call throws logs all
  23 of them. A run in which a call throws logs the events that precede that call (the
  first 3, 4, 6, 9, 11, 17 or 19, by the kind of the call) and then one failed event. A
  stage logs several events, and the estimating-fees event, when there is one, comes
  after the event that announces the submission.
\<close>

theorem lifecycle_log_order:
  assumes "guard_ok w"
  shows "(list_all (\<lambda>c. snd c = None) (new_effects w (sendTransaction e w))
            \<longrightarrow> templates (logs (sendTransaction e w)) = pipeline_events)
       \<and> (\<forall>c \<in> set (new_effects w (sendTransaction e w)). snd c \<noteq> None \<longrightarrow>
             templates (logs (sendTransaction e w)) =
               take (events_before (fst c)) pipeline_events @ [TransactionFailed])
       \<and> (templates (logs (sendTransaction e w)) = pipeline_events
          \<or> (\<exists>n \<in> {3, 4, 6, 9, 11, 17, 19}.
               templates (logs (sendTransaction e w)) = take n pipeline_events @ [TransactionFailed]))
       \<and> (FetchingGasPrices \<in> set (templates (logs (sendTransaction e w)))
            \<longrightarrow> precedes SubmittingUserOperation FetchingGasPrices
                  (templates (logs (sendTransaction e w))))"
proof -
  define P where "P = (\<lambda>v.
       (list_all (\<lambda>c. snd c = None) (new_effects w v)
            \<longrightarrow> templates (logs v) = pipeline_events)
       \<and> (\<forall>c \<in> set (new_effects w v). snd c \<noteq> None \<longrightarrow>
             templates (logs v) =
               take (events_before (fst c)) pipeline_events @ [TransactionFailed])
       \<and> (templates (logs v) = pipeline_events
          \<or> (\<exists>n \<in> {3, 4, 6, 9, 11, 17, 19}.
               templates (logs v) = take n pipeline_events @ [TransactionFailed]))
       \<and> (FetchingGasPrices \<in> set (templates (logs v))
            \<longrightarrow> precedes SubmittingUserOperation FetchingGasPrices (templates (logs v))))"
  have "P (sendTransaction e w)"
    using assms
    apply (simp add: pipeline_defs updateStatus_def addLog_def clearLogs_def setLoading_def call_def
        Let_def split: sum.splits prod.splits option.splits)
    apply (auto simp add: P_def new_effects_def templates_def pipeline_events_def precedes_def)
    done
  then show ?thesis by (simp add: P_def)
qed

theorem lifecycle_log_order_witness:
  "guard_ok world0
   \<and> list_all (\<lambda>c. snd c = None) (new_effects world0 (sendTransaction env_ok world0))
   \<and> templates (logs (sendTransaction env_ok world0)) = pipeline_events
   \<and> snd (last (new_effects world0 (sendTransaction env_unsigned world0))) =
       Some (Error ''SigningUnsupported'')
   \<and> events_before (fst (last (new_effects world0 (sendTransaction env_unsigned world0)))) = 9
   \<and> templates (logs (sendTransaction env_unsigned world0)) =
       take 9 pipeline_events @ [TransactionFailed]
   \<and> precedes SubmittingUserOperation FetchingGasPrices
       (templates (logs (sendTransaction env_ok world0)))"
  using lifecycle_log_order [of world0 env_ok] lifecycle_log_order [of world0 env_unsigned]
  by (simp add: pipeline_defs page_defs templates_def pipeline_events_def Let_def
      run0_defs env_unsigned_def precedes_def payload0_eq)

text \<open>As first stated, C7 has one event for each of eight stages, the one for estimating
  fees before the one for submitting. The run in which every call succeeds logs 23
  events, and no fee event comes before the submitting event.\<close>

theorem fee_event_after_submitting_counterexample:
  "templates (logs (sendTransaction env_ok world0)) =
     [Starting, SettingUpConnection, GettingAddresses, CreatingSmartAccount,
      SmartAccountResolved, PreparingTransferAmount, TransferAmount, CreatingPermit,
      PermitAmount, PermitSignatureCreated, EncodingPaymasterData, PaymasterConfigured,
      CreatingBundlerClient, BundlerClientCreated, SubmittingUserOperation, Transferring,
      FetchingGasPrices, UserOperationSubmitted, WaitingForConfirmation,
      TransactionConfirmed, TransactionHash, Sent, GasPaidWithUSDC]
   \<and> \<not> precedes FetchingGasPrices SubmittingUserOperation
         (templates (logs (sendTransaction env_ok world0)))
   \<and> length (logs (sendTransaction env_ok world0)) = 23"
  by (simp add: pipeline_defs page_defs templates_def Let_def run0_defs precedes_def payload0_eq)

text \<open>
  C8 (as amended). In a run of \<open>sendTransaction\<close> that passes the guard, a call that
  throws is the last call made: the attempt stops there. The error is not swallowed: the
  run ends with the status and a last log entry \<open>Transaction failed\<close> carrying the message
  of the error (\<open>Unknown error\<close> when what was thrown is not an \<open>Error\<close>), and with
  \<open>loading\<close> reset. When no call throws the status is the success message.
\<close>

theorem failure_aborts_and_is_surfaced:
  assumes "guard_ok w"
  shows "new_effects w (sendTransaction e w) \<noteq> []
       \<and> list_all (\<lambda>c. snd c = None) (butlast (new_effects w (sendTransaction e w)))
       \<and> \<not> loading (sendTransaction e w)
       \<and> (case snd (last (new_effects w (sendTransaction e w))) of
            Some x \<Rightarrow>
              status (sendTransaction e w) = Some (error, (TransactionFailed, [ArgString (errorMsg x)]))
              \<and> last (logs (sendTransaction e w)) = (error, (TransactionFailed, [ArgString (errorMsg x)]))
          | None \<Rightarrow>
              (\<exists>h. status (sendTransaction e w) = Some (success, (TransactionSuccessful, [ArgHex h]))))"
proof -
  define P where "P = (\<lambda>v.
       new_effects w v \<noteq> []
       \<and> list_all (\<lambda>c. snd c = None) (butlast (new_effects w v))
       \<and> \<not> loading v
       \<and> (case snd (last (new_effects w v)) of
            Some x \<Rightarrow>
              status v = Some (error, (TransactionFailed, [ArgString (errorMsg x)]))
              \<and> last (logs v) = (error, (TransactionFailed, [ArgString (errorMsg x)]))
          | None \<Rightarrow>
              (\<exists>h. status v = Some (success, (TransactionSuccessful, [ArgHex h])))))"
  have "P (sendTransaction e w)"
    using assms
    apply (simp add: pipeline_defs updateStatus_def addLog_def clearLogs_def setLoading_def call_def
        Let_def split: sum.splits prod.splits option.splits)
    apply (auto simp add: P_def new_effects_def)
    done
  then show ?thesis by (simp add: P_def)
qed

theorem failure_aborts_and_is_surfaced_witness:
  "guard_ok world0
   \<and> map fst (new_effects world0 (sendTransaction env_fee_down world0)) =
       [GetAddresses,
        ToMetaMaskSmartAccount (hybrid_params (createPublicClient arbitrumSepolia) (Some owner0) wallet0),
        ParseUnits ''0.1'' 6, ReadName USDC_ADDRESS, ReadVersion USDC_ADDRESS,
        ReadNonces USDC_ADDRESS smart0,
        SignTypedData smart0 (permit_typed_data ''USDC'' ''2'' 421614 USDC_ADDRESS smart0
          PAYMASTER_V08_ADDRESS 10000000 7),
        EncodePacked [Num 0, Addr USDC_ADDRESS, Num 10000000, Blob sig0],
        GasPriceRequest]
   \<and> snd (last (new_effects world0 (sendTransaction env_fee_down world0))) = Some (Error ''fetch failed'')
   \<and> status (sendTransaction env_fee_down world0) =
       Some (error, (TransactionFailed, [ArgString ''fetch failed'']))
   \<and> \<not> loading (sendTransaction env_fee_down world0)"
  using failure_aborts_and_is_surfaced [of world0 env_fee_down]
  by (simp add: pipeline_defs page_defs Let_def permit_typed_data_def arbitrumSepolia_def
      run0_defs env_fee_down_def payload0_eq)

text \<open>As first stated, C8 has the outcome name the stage that failed. A run whose fee
  query throws and a run whose submission throws the same message leave the page in the
  same state, log included; a run whose wallet throws and a run whose receipt query throws
  the same message end with the same status.\<close>

theorem failing_stage_not_named_counterexample:
  "state.truncate (sendTransaction env_fee_down world0) =
     state.truncate (sendTransaction env_submit_down world0)
   \<and> fst (last (effects (sendTransaction env_fee_down world0))) = GasPriceRequest
   \<and> fst (last (effects (sendTransaction env_submit_down world0))) = SendUserOperation (uo0 100000)
   \<and> status (sendTransaction env_ok world_wallet_down) =
       status (sendTransaction env_wait_down world0)
   \<and> fst (last (effects (sendTransaction env_ok world_wallet_down))) = GetAddresses
   \<and> fst (last (effects (sendTransaction env_wait_down world0))) = WaitForUserOperationReceipt [0xab]"
  by (simp add: pipeline_defs page_defs Let_def state.truncate_def
      run0_defs env_fee_down_def env_submit_down_def env_wait_down_def
      world_wallet_down_def payload0_eq uo0_def hexToBigInt_fees)

text \<open>
  C9. In every run of \<open>sendTransaction\<close>, whatever the amount typed in, the value of the
  permit handed to the signer is 10000000, the values packed into the payload are mode 0,
  the USDC address, 10000000 and the signature, and the amount read back from the payload
  of the operation submitted is 10000000. Only the argument of the \<open>transfer\<close> call
  follows the amount typed in, parsed at 6 decimals.
\<close>

theorem permit_amount_is_constant:
  assumes "(ef, r) \<in> set (new_effects w (sendTransaction e w))"
  shows "(\<forall>a td. ef = SignTypedData a td \<longrightarrow> msg_value (message td) = ''10000000'')
       \<and> (\<forall>vs. ef = EncodePacked vs \<longrightarrow>
             (\<exists>sg. vs = [Num 0, Addr USDC_ADDRESS, Num 10000000, Blob sg]))
       \<and> (\<forall>uo. ef = SendUserOperation uo \<longrightarrow>
             (\<exists>sg. decode_payload (paymasterData (uo_paymaster uo)) =
                     Some (0, USDC_ADDRESS, 10000000, sg))
           \<and> (\<exists>v. parseUnits e (amount w) 6 = Inr v
                  \<and> calls uo = [\<lparr>to = USDC_ADDRESS, functionName = ''transfer'',
                                  args = (recipient w, v)\<rparr>]))"
proof -
  define P where "P = (\<lambda>v.
     (ef, r) \<in> set (new_effects w v) \<longrightarrow>
       (\<forall>a td. ef = SignTypedData a td \<longrightarrow> msg_value (message td) = ''10000000'')
       \<and> (\<forall>vs. ef = EncodePacked vs \<longrightarrow>
             (\<exists>sg. vs = [Num 0, Addr USDC_ADDRESS, Num 10000000, Blob sg]))
       \<and> (\<forall>uo. ef = SendUserOperation uo \<longrightarrow>
             (\<exists>sg. decode_payload (paymasterData (uo_paymaster uo)) =
                     Some (0, USDC_ADDRESS, 10000000, sg))
           \<and> (\<exists>v. parseUnits e (amount w) 6 = Inr v
                  \<and> calls uo = [\<lparr>to = USDC_ADDRESS, functionName = ''transfer'',
                                  args = (recipient w, v)\<rparr>])))"
  have "P (sendTransaction e w)"
    apply (simp add: pipeline_defs updateStatus_def addLog_def clearLogs_def setLoading_def call_def
        Let_def split: sum.splits prod.splits option.splits bool.splits)
    apply (auto simp add: P_def new_effects_def toString_permitAmount dest: payload_fields)
    done
  with assms show ?thesis by (simp add: P_def)
qed

lemma run_ok_submits:
  "(SendUserOperation (uo0 100000), None) \<in> set (new_effects world0 (sendTransaction env_ok world0))"
  by (simp add: pipeline_defs page_defs Let_def run0_defs payload0_eq uo0_def hexToBigInt_fees)

lemma run_ok_submits_other_amount:
  "(SendUserOperation (uo0 2500000), None)
     \<in> set (new_effects (world0\<lparr>amount := ''2.5''\<rparr>)
              (sendTransaction env_ok (world0\<lparr>amount := ''2.5''\<rparr>)))"
  by (simp add: pipeline_defs page_defs Let_def run0_defs payload0_eq uo0_def hexToBigInt_fees)

theorem permit_amount_is_constant_witness:
  "(SendUserOperation (uo0 100000), None) \<in> set (new_effects world0 (sendTransaction env_ok world0))
   \<and> (SendUserOperation (uo0 2500000), None)
       \<in> set (new_effects (world0\<lparr>amount := ''2.5''\<rparr>)
                (sendTransaction env_ok (world0\<lparr>amount := ''2.5''\<rparr>)))
   \<and> decode_payload (paymasterData (uo_paymaster (uo0 100000))) =
       Some (0, USDC_ADDRESS, 10000000, sig0)
   \<and> decode_payload (paymasterData (uo_paymaster (uo0 2500000))) =
       Some (0, USDC_ADDRESS, 10000000, sig0)
   \<and> args (hd (calls (uo0 100000))) = (recipient world0, 100000)
   \<and> args (hd (calls (uo0 2500000))) = (recipient world0, 2500000)"
  using run_ok_submits run_ok_submits_other_amount
    permit_amount_is_constant [OF run_ok_submits]
    permit_amount_is_constant [OF run_ok_submits_other_amount]
    payload_fields [OF payload0_eq]
  by (simp add: uo0_def world0_def)

end
